theory Spec2Isabelle
  imports Complex_Main "HOL-Library.Sublist" "HOL-Library.AList"
begin

section \<open>Python strings\<close>

text \<open>
  A Python \<open>str\<close> is a sequence of Unicode code points, and \<open>len\<close>, \<open>strip\<close>,
  \<open>lstrip\<close> and \<open>startswith\<close> work on code points. The bullet \<open>U+2022\<close> of the marker
  set of the post-processor lies outside ASCII, so a string is the list of its code
  points (as \<open>ord\<close> gives them) and not a list of bytes. \<open>lit\<close> embeds an ASCII literal.
\<close>

type_synonym pystr = "int list"

definition lit :: "string \<Rightarrow> pystr" where
  "lit s = map of_char s"

definition bullet :: int where
  "bullet = 8226"

definition newline :: int where
  "newline = 10"

text \<open>The code points \<open>str.isspace\<close> accepts: what \<open>str.strip()\<close> removes.\<close>

definition isspace :: "int \<Rightarrow> bool" where
  "isspace c = ((9 \<le> c \<and> c \<le> 13) \<or> (28 \<le> c \<and> c \<le> 32) \<or> c = 133 \<or> c = 160
     \<or> c = 5760 \<or> (8192 \<le> c \<and> c \<le> 8202) \<or> c = 8232 \<or> c = 8233 \<or> c = 8239
     \<or> c = 8287 \<or> c = 12288)"

definition lstrip :: "pystr \<Rightarrow> pystr" where
  "lstrip s = dropWhile isspace s"

definition rstrip :: "pystr \<Rightarrow> pystr" where
  "rstrip s = rev (dropWhile isspace (rev s))"

definition strip :: "pystr \<Rightarrow> pystr" where
  "strip s = rstrip (lstrip s)"

text \<open>\<open>s.lstrip(chars)\<close> drops every leading character that occurs in \<open>chars\<close>.\<close>

definition lstrip_chars :: "pystr \<Rightarrow> pystr \<Rightarrow> pystr" where
  "lstrip_chars chars s = dropWhile (\<lambda>c. c \<in> set chars) s"

text \<open>\<open>s.startswith(t)\<close> for a tuple \<open>t\<close> of prefixes.\<close>

definition startswith :: "pystr \<Rightarrow> pystr list \<Rightarrow> bool" where
  "startswith s ps = list_ex (\<lambda>p. prefix p s) ps"

text \<open>\<open>s.split(sep)\<close> for a separator of one character; the result is never empty.\<close>

fun split_sep :: "int \<Rightarrow> pystr \<Rightarrow> pystr list" where
  "split_sep sep [] = [[]]"
| "split_sep sep (c # cs) =
     (if c = sep then [] # split_sep sep cs
      else (case split_sep sep cs of [] \<Rightarrow> [[c]] | l # ls \<Rightarrow> (c # l) # ls))"

section \<open>Response post-processor: action extraction\<close>

text \<open>
  \<open>extract_actions_from_response\<close> exists twice: in \<open>main.py\<close> (the endpoint's) and in
  \<open>enhanced_streamlit.py\<close> (the chat page's, suffixed \<open>_ui\<close> here). Both strip the markers
  with \<open>line.lstrip('-\<bullet>12345. ')\<close>; they differ in the marker tuple and in the guards.
\<close>

definition marker_chars :: pystr where
  "marker_chars = lit ''-'' @ [bullet] @ lit ''12345. ''"

definition markers_main :: "pystr list" where
  "markers_main =
     [lit ''-'', [bullet], lit ''1.'', lit ''2.'', lit ''3.'', lit ''4.'', lit ''5.'']"

definition markers_ui :: "pystr list" where
  "markers_ui = markers_main @ [lit ''Recommend'', lit ''Action'', lit ''Step'']"

text \<open>The \<open>for line in lines\<close> loop of \<open>main.py\<close>; \<open>actions.append\<close> keeps the order.\<close>

fun actions_loop :: "pystr list \<Rightarrow> pystr list" where
  "actions_loop [] = []"
| "actions_loop (l # ls) =
     (let line = strip l in
      if startswith line markers_main then
        (let action = strip (lstrip_chars marker_chars line) in
         if action \<noteq> [] \<and> length action > 10 then action # actions_loop ls
         else actions_loop ls)
      else actions_loop ls)"

definition extract_actions_from_response :: "pystr \<Rightarrow> pystr list" where
  "extract_actions_from_response response =
     take 5 (actions_loop (split_sep newline response))"

text \<open>The loop of \<open>enhanced_streamlit.py\<close>.\<close>

fun actions_loop_ui :: "pystr list \<Rightarrow> pystr list" where
  "actions_loop_ui [] = []"
| "actions_loop_ui (l # ls) =
     (let line = strip l in
      if startswith line markers_ui \<and> length line > 15 then
        (let action = strip (lstrip_chars marker_chars line) in
         if action \<noteq> [] \<and> \<not> prefix (lit ''**'') action then action # actions_loop_ui ls
         else actions_loop_ui ls)
      else actions_loop_ui ls)"

definition extract_actions_from_response_ui :: "pystr \<Rightarrow> pystr list" where
  "extract_actions_from_response_ui response =
     take 5 (actions_loop_ui (split_sep newline response))"

text \<open>The text a line leaves once trimmed and stripped of its leading markers.\<close>

definition after_markers :: "pystr \<Rightarrow> pystr" where
  "after_markers l = lstrip_chars marker_chars (strip l)"

text \<open>The inputs of the worked examples.\<close>

definition example_four_lines :: pystr where
  "example_four_lines =
     lit ''- Do X immediately'' @ [newline] @ lit ''**Header**'' @ [newline]
     @ lit ''Not a bullet'' @ [newline] @ lit ''1. Do Y now''"




section \<open>Query classifier\<close>

text \<open>\<open>word in s\<close> on strings: \<open>word\<close> occurs in \<open>s\<close> as a contiguous run.\<close>

fun str_in :: "pystr \<Rightarrow> pystr \<Rightarrow> bool" where
  "str_in word [] = (word = [])"
| "str_in word (c # cs) = (prefix word (c # cs) \<or> str_in word cs)"

text \<open>\<open>any(word in s for word in words)\<close>.\<close>

definition any_in :: "pystr list \<Rightarrow> pystr \<Rightarrow> bool" where
  "any_in words s = list_ex (\<lambda>word. str_in word s) words"

text \<open>The six keyword lists of \<open>analyze_query_type\<close>, in the order the source tests them.\<close>

definition planner_words :: "pystr list" where
  "planner_words = map lit
     [''plan'', ''strategy'', ''roadmap'', ''timeline'', ''schedule'', ''develop'']"

definition analytics_words :: "pystr list" where
  "analytics_words = map lit
     [''analyze'', ''analysis'', ''trend'', ''pattern'', ''insight'', ''metric'', ''statistic'']"

definition rag_words :: "pystr list" where
  "rag_words = map lit
     [''show'', ''list'', ''get'', ''find'', ''retrieve'', ''display'', ''what'']"

definition supervisor_words :: "pystr list" where
  "supervisor_words = map lit
     [''comprehensive'', ''complete'', ''overview'', ''assessment'', ''report'', ''review'']"

definition react_words :: "pystr list" where
  "react_words = map lit
     [''why'', ''how'', ''solve'', ''fix'', ''improve'', ''problem'', ''issue'', ''trouble'']"

definition crag_words :: "pystr list" where
  "crag_words = map lit
     [''validate'', ''verify'', ''check'', ''review'', ''assess'', ''correct'', ''validate'']"

text \<open>
  \<open>EnhancedAIAgent.analyze_query_type\<close>. \<open>str.lower\<close> is Python's, and its Unicode case
  mapping is not part of the repository: the classifier takes it as the parameter
  \<open>lower\<close>, and what is proved of the classifier holds for every such function.
  \<open>lower_ascii\<close> is \<open>str.lower\<close> on ASCII text.
\<close>

definition analyze_query_type :: "(pystr \<Rightarrow> pystr) \<Rightarrow> pystr \<Rightarrow> pystr" where
  "analyze_query_type lower query =
     (let query_lower = lower query in
      if any_in planner_words query_lower then lit ''planner''
      else if any_in analytics_words query_lower then lit ''analytics''
      else if any_in rag_words query_lower then lit ''rag''
      else if any_in supervisor_words query_lower then lit ''supervisor''
      else if any_in react_words query_lower then lit ''react''
      else if any_in crag_words query_lower then lit ''crag''
      else lit ''supervisor'')"

definition lower_ascii :: "pystr \<Rightarrow> pystr" where
  "lower_ascii s = map (\<lambda>c. if 65 \<le> c \<and> c \<le> 90 then c + 32 else c) s"

definition example_review_query :: pystr where
  "example_review_query = lit ''Please Review our stock levels''"

section \<open>Python values, exceptions and the numeric builtins\<close>

text \<open>
  An exception is its class and the text \<open>str(e)\<close> gives. \<open>HTTPException\<close> is the web
  framework's, a subclass of \<open>Exception\<close> that carries a status code and a detail.
\<close>

datatype exn_class =
  ValueError | TypeError | OverflowError | KeyError | IndexError | AttributeError
  | ImportError | StorageError | ServiceError

datatype pyexn = Exn exn_class pystr | HTTPException int pystr

text \<open>
  A \<open>float\<close> is a finite number, an infinity or NaN. The rounding of the mantissa is
  not modelled: a finite float carries the real number it stands for.
\<close>

datatype pyfloat = Finite real | PosInf | NegInf | NaN

text \<open>
  The values that reach the coercion helpers and that make up the results of the
  aggregator: \<open>None\<close>, booleans, integers, floats, strings, lists, dictionaries (in
  insertion order), and \<open>PObject\<close> for an object without a numeric conversion.
\<close>

datatype pyval =
  PNone | PBool bool | PInt int | PFloat pyfloat | PStr pystr
  | PList "pyval list" | PDict "(pyval \<times> pyval) list" | PObject

text \<open>A dictionary key given by an ASCII literal.\<close>

definition key :: "string \<Rightarrow> pyval" where
  "key s = PStr (lit s)"

text \<open>
  \<open>int(s)\<close> and \<open>float(s)\<close> on a string, for ASCII digits: surrounding whitespace is
  trimmed, a sign may lead, and single underscores may stand between digits. (Python
  also reads the decimal digits of other scripts, and refuses an integer literal of
  more than 4300 digits with \<open>ValueError\<close>; neither is modelled, and neither raises
  out of the helpers below.)
  \<open>digits\<close> reads a run of digits and returns its value and the number of digits.
\<close>

definition is_digit :: "int \<Rightarrow> bool" where
  "is_digit c = (48 \<le> c \<and> c \<le> 57)"

fun digits_acc :: "pystr \<Rightarrow> int \<times> nat \<Rightarrow> (int \<times> nat) option" where
  "digits_acc [] acc = Some acc"
| "digits_acc (c # cs) (v, n) =
     (if is_digit c then digits_acc cs (10 * v + (c - 48), Suc n)
      else if c = 95 \<and> cs \<noteq> [] \<and> is_digit (hd cs) then digits_acc cs (v, n)
      else None)"

definition digits :: "pystr \<Rightarrow> (int \<times> nat) option" where
  "digits s = (case s of [] \<Rightarrow> None
               | c # cs \<Rightarrow> if is_digit c then digits_acc s (0, 0) else None)"

text \<open>A leading sign: the factor and the rest.\<close>

definition signed :: "pystr \<Rightarrow> int \<times> pystr" where
  "signed s = (case s of [] \<Rightarrow> (1, [])
               | c # cs \<Rightarrow> if c = 43 then (1, cs) else if c = 45 then (- 1, cs) else (1, s))"

definition int_of_str :: "pystr \<Rightarrow> pyexn + int" where
  "int_of_str s =
     (case signed (strip s) of (sg, r) \<Rightarrow>
        (case digits r of
           None \<Rightarrow> Inl (Exn ValueError (lit ''invalid literal for int() with base 10''))
         | Some (v, n) \<Rightarrow> Inr (sg * v)))"

text \<open>
  The largest magnitude that still rounds to a finite double; from
  \<open>2^1024 - 2^970\<close> on, the conversion overflows.
\<close>

definition float_limit :: real where
  "float_limit = 2 ^ 1024 - 2 ^ 970"

text \<open>A decimal string that is too large for a double reads as an infinity.\<close>

definition float_of_real :: "real \<Rightarrow> pyfloat" where
  "float_of_real x =
     (if float_limit \<le> x then PosInf else if x \<le> - float_limit then NegInf else Finite x)"

text \<open>The mantissa: \<open>digits\<close>, \<open>digits.\<close>, \<open>.digits\<close> or \<open>digits.digits\<close>.\<close>

definition mantissa :: "pystr \<Rightarrow> real option" where
  "mantissa s =
     (let ip = takeWhile (\<lambda>c. c \<noteq> 46) s; r = dropWhile (\<lambda>c. c \<noteq> 46) s in
      case r of
        [] \<Rightarrow> map_option (\<lambda>(v, n). of_int v) (digits ip)
      | dot # fp \<Rightarrow>
          (if ip = [] then map_option (\<lambda>(v, n). of_int v / 10 ^ n) (digits fp)
           else case digits ip of
             None \<Rightarrow> None
           | Some (v, n) \<Rightarrow>
               (if fp = [] then Some (of_int v)
                else map_option (\<lambda>(w, k). of_int v + of_int w / 10 ^ k) (digits fp))))"

definition is_exp_char :: "int \<Rightarrow> bool" where
  "is_exp_char c = (c = 101 \<or> c = 69)"

definition decimal_of_str :: "pystr \<Rightarrow> real option" where
  "decimal_of_str s =
     (let m = takeWhile (\<lambda>c. \<not> is_exp_char c) s;
          r = dropWhile (\<lambda>c. \<not> is_exp_char c) s in
      case r of
        [] \<Rightarrow> mantissa m
      | e # ex \<Rightarrow>
          (case (mantissa m, signed ex) of
             (None, _) \<Rightarrow> None
           | (Some x, (sg, ds)) \<Rightarrow>
               (case digits ds of
                  None \<Rightarrow> None
                | Some (v, n) \<Rightarrow>
                    Some (if sg = 1 then x * 10 ^ nat v else x / 10 ^ nat v))))"

definition float_of_str :: "pystr \<Rightarrow> pyexn + pyfloat" where
  "float_of_str s =
     (case signed (strip s) of (sg, r) \<Rightarrow>
        (let w = lower_ascii r in
         if w = lit ''inf'' \<or> w = lit ''infinity'' then Inr (if sg = 1 then PosInf else NegInf)
         else if w = lit ''nan'' then Inr NaN
         else case decimal_of_str r of
           None \<Rightarrow> Inl (Exn ValueError (lit ''could not convert string to float''))
         | Some x \<Rightarrow> Inr (float_of_real (of_int sg * x))))"

text \<open>
  The builtin \<open>float(v)\<close>: an integer too large for a double raises \<open>OverflowError\<close>.
\<close>

fun py_float :: "pyval \<Rightarrow> pyexn + pyfloat" where
  "py_float (PFloat f) = Inr f"
| "py_float (PInt i) =
     (if float_limit \<le> \<bar>of_int i\<bar>
      then Inl (Exn OverflowError (lit ''int too large to convert to float''))
      else Inr (Finite (of_int i)))"
| "py_float (PBool b) = Inr (Finite (if b then 1 else 0))"
| "py_float (PStr s) = float_of_str s"
| "py_float v = Inl (Exn TypeError (lit ''float() argument must be a string or a real number''))"

text \<open>
  The builtin \<open>int(v)\<close>: a float is truncated towards zero, an infinity raises
  \<open>OverflowError\<close> and NaN raises \<open>ValueError\<close>.
\<close>

fun py_int :: "pyval \<Rightarrow> pyexn + int" where
  "py_int (PInt i) = Inr i"
| "py_int (PBool b) = Inr (if b then 1 else 0)"
| "py_int (PFloat (Finite x)) = Inr (if 0 \<le> x then \<lfloor>x\<rfloor> else \<lceil>x\<rceil>)"
| "py_int (PFloat NaN) = Inl (Exn ValueError (lit ''cannot convert float NaN to integer''))"
| "py_int (PFloat f) = Inl (Exn OverflowError (lit ''cannot convert float infinity to integer''))"
| "py_int (PStr s) = int_of_str s"
| "py_int v = Inl (Exn TypeError (lit ''int() argument must be a string, a bytes-like object or a real number''))"

section \<open>Metrics aggregator: the coercion helpers\<close>

text \<open>\<open>except (ValueError, TypeError)\<close>: the classes the helpers catch.\<close>

fun is_value_or_type_error :: "pyexn \<Rightarrow> bool" where
  "is_value_or_type_error (Exn c m) = (c = ValueError \<or> c = TypeError)"
| "is_value_or_type_error (HTTPException code detail) = False"

text \<open>\<open>AICRUDTools.safe_float\<close> and \<open>AICRUDTools.safe_int\<close>; \<open>Inl\<close> is an exception that leaves the helper.\<close>

definition safe_float :: "pyval \<Rightarrow> pyexn + pyfloat" where
  "safe_float v =
     (if v = PNone then Inr (Finite 0)
      else case py_float v of
        Inr f \<Rightarrow> Inr f
      | Inl e \<Rightarrow> if is_value_or_type_error e then Inr (Finite 0) else Inl e)"

definition safe_int :: "pyval \<Rightarrow> pyexn + int" where
  "safe_int v =
     (if v = PNone then Inr 0
      else case py_int v of
        Inr n \<Rightarrow> Inr n
      | Inl e \<Rightarrow> if is_value_or_type_error e then Inr 0 else Inl e)"

text \<open>Exceptions as values: sequencing, and a loop body run over a list.\<close>

definition bind_exn :: "pyexn + 'a \<Rightarrow> ('a \<Rightarrow> pyexn + 'b) \<Rightarrow> pyexn + 'b" where
  "bind_exn m f = (case m of Inl e \<Rightarrow> Inl e | Inr x \<Rightarrow> f x)"

fun map_exn :: "('a \<Rightarrow> pyexn + 'b) \<Rightarrow> 'a list \<Rightarrow> pyexn + 'b list" where
  "map_exn f [] = Inr []"
| "map_exn f (x # xs) =
     bind_exn (f x) (\<lambda>y. bind_exn (map_exn f xs) (\<lambda>ys. Inr (y # ys)))"

text \<open>
  \<open>str(n)\<close> for an integer and \<open>str(e)\<close> for an exception; for an \<open>HTTPException\<close> it
  is the framework's \<open>status_code: detail\<close>.
\<close>

fun decimal_nat :: "nat \<Rightarrow> pystr" where
  "decimal_nat n =
     (if n < 10 then [48 + int n] else decimal_nat (n div 10) @ [48 + int (n mod 10)])"

declare decimal_nat.simps [simp del]

definition decimal :: "int \<Rightarrow> pystr" where
  "decimal i = (if i < 0 then 45 # decimal_nat (nat (- i)) else decimal_nat (nat i))"

fun str_exn :: "pyexn \<Rightarrow> pystr" where
  "str_exn (Exn c m) = m"
| "str_exn (HTTPException code detail) = decimal code @ lit '': '' @ detail"

section \<open>Storage collaborator\<close>

text \<open>
  A row of a result set, as \<open>dict(row)\<close> sees it: column names and values in column
  order. The storage is what \<open>get_db_connection\<close> and \<open>cursor.execute\<close> give: for each
  statement the aggregator issues (its parameters included), the rows or the
  exception raised. \<open>Connect\<close> stands for opening the connection.
\<close>

type_synonym row = "(pyval \<times> pyval) list"

datatype sql =
  Connect
  | SearchProducts "(pystr \<times> pystr \<times> pystr) option" "pystr option"
  | LowStock int
  | CategoryStatistics | TotalStatistics | PriceStatistics
  | RoleDistribution | UserActivity | RecentRegistrations
  | CategoryInsights | LowStockCategories
  | CountCategories | CountProducts | CountActiveUsers | CountRoles
  | IntegrityCheck | TableNames | CountTable pyval

type_synonym storage = "sql \<Rightarrow> pyexn + row list"

text \<open>\<open>d.get(k, default)\<close>, and \<open>if k in d: d[k] = safe_float(d[k])\<close> with its \<open>safe_int\<close> twin.\<close>

definition get_default :: "row \<Rightarrow> pyval \<Rightarrow> pyval \<Rightarrow> pyval" where
  "get_default d k dflt = (case map_of d k of None \<Rightarrow> dflt | Some v \<Rightarrow> v)"

definition float_field :: "string \<Rightarrow> row \<Rightarrow> pyexn + row" where
  "float_field k d =
     (case map_of d (key k) of
        None \<Rightarrow> Inr d
      | Some v \<Rightarrow> bind_exn (safe_float v) (\<lambda>f. Inr (AList.update (key k) (PFloat f) d)))"

definition int_field :: "string \<Rightarrow> row \<Rightarrow> pyexn + row" where
  "int_field k d =
     (case map_of d (key k) of
        None \<Rightarrow> Inr d
      | Some v \<Rightarrow> bind_exn (safe_int v) (\<lambda>n. Inr (AList.update (key k) (PInt n) d)))"


text \<open>
  \<open>cursor.fetchone()\<close> is the first row or \<open>None\<close>; \<open>row[0]\<close> is the first column.
  Subscripting \<open>None\<close> raises \<open>TypeError\<close>.
\<close>

definition first_column :: "row \<Rightarrow> pyexn + pyval" where
  "first_column r =
     (case r of [] \<Rightarrow> Inl (Exn IndexError (lit ''No item with that key''))
      | (k, v) # _ \<Rightarrow> Inr v)"

definition fetchone_first :: "row list \<Rightarrow> pyexn + pyval" where
  "fetchone_first rows =
     (case rows of
        [] \<Rightarrow> Inl (Exn TypeError (lit ''NoneType object is not subscriptable''))
      | r # _ \<Rightarrow> first_column r)"


section \<open>Metrics aggregator: the six operations\<close>

text \<open>The \<open>LIKE\<close> pattern \<open>%s%\<close>.\<close>

definition like :: "pystr \<Rightarrow> pystr" where
  "like s = [37] @ s @ [37]"

definition product_dict :: "row \<Rightarrow> pyexn + row" where
  "product_dict r = bind_exn (float_field ''price'' r) (int_field ''stock_quantity'')"




definition get_low_stock_products_try :: "storage \<Rightarrow> int \<Rightarrow> pyexn + row list" where
  "get_low_stock_products_try st threshold =
     bind_exn (st Connect) (\<lambda>_.
     bind_exn (st (LowStock threshold)) (\<lambda>results.
     map_exn product_dict results))"

definition get_low_stock_products :: "storage \<Rightarrow> int \<Rightarrow> row list" where
  "get_low_stock_products st threshold =
     (case get_low_stock_products_try st threshold of
        Inl e \<Rightarrow> []
      | Inr products \<Rightarrow> products)"


fun int_value :: "pyval \<Rightarrow> int" where
  "int_value (PInt n) = n"
| "int_value (PBool b) = (if b then 1 else 0)"
| "int_value v = 0"
















text \<open>
  \<open>get_system_health\<close>. A count is \<open>safe_int(cursor.fetchone()[0])\<close>. The low-stock
  products come from \<open>get_low_stock_products()\<close> at its default threshold 10, which
  opens a connection of its own and absorbs its own failures.
\<close>

definition count_of :: "storage \<Rightarrow> sql \<Rightarrow> pyexn + int" where
  "count_of st q = bind_exn (st q) (\<lambda>rows. bind_exn (fetchone_first rows) safe_int)"

text \<open>\<open>db_health_result[0] if db_health_result else "unknown"\<close>.\<close>

definition db_health_of :: "row list \<Rightarrow> pyval" where
  "db_health_of rows =
     (case rows of
        [] \<Rightarrow> PStr (lit ''unknown'')
      | r # _ \<Rightarrow> (case r of [] \<Rightarrow> PStr (lit ''unknown'') | (k, v) # _ \<Rightarrow> v))"

text \<open>The loop \<open>for table in tables\<close>; a later count of the same table replaces the earlier.\<close>

fun table_sizes_loop :: "storage \<Rightarrow> pyval list \<Rightarrow> row \<Rightarrow> pyexn + row" where
  "table_sizes_loop st [] table_sizes = Inr table_sizes"
| "table_sizes_loop st (t # ts) table_sizes =
     bind_exn (count_of st (CountTable t)) (\<lambda>n.
       table_sizes_loop st ts (AList.update t (PInt n) table_sizes))"

text \<open>
  The score \<open>sum(health_indicators.values()) / len(health_indicators) * 100\<close> is a
  float. With five indicators it is one of 0, 20, 40, 60, 80 and 100, each of which
  the float arithmetic gives exactly, so the real number is the float. \<open>round1\<close> is
  \<open>round(x, 1)\<close>.
\<close>

definition health_score_of_indicators :: "bool list \<Rightarrow> real" where
  "health_score_of_indicators bs = real (length (filter id bs)) / real (length bs) * 100"

definition round1 :: "real \<Rightarrow> real" where
  "round1 x = of_int (round (x * 10)) / 10"

definition health_status_of_score :: "real \<Rightarrow> pystr" where
  "health_status_of_score health_score =
     (if health_score \<ge> 80 then lit ''excellent''
      else if health_score \<ge> 60 then lit ''good''
      else lit ''needs_attention'')"

definition get_system_health_try :: "storage \<Rightarrow> pyexn + pyval" where
  "get_system_health_try st =
     bind_exn (st Connect) (\<lambda>_.
     bind_exn (count_of st CountCategories) (\<lambda>category_count.
     bind_exn (count_of st CountProducts) (\<lambda>product_count.
     bind_exn (count_of st CountActiveUsers) (\<lambda>user_count.
     bind_exn (count_of st CountRoles) (\<lambda>role_count.
       (let low_stock_products = get_low_stock_products st 10;
            low_stock_count = int (length low_stock_products)
        in
     bind_exn (st IntegrityCheck) (\<lambda>health_rows.
       (let db_health = db_health_of health_rows in
     bind_exn (st TableNames) (\<lambda>table_rows.
     bind_exn (map_exn first_column table_rows) (\<lambda>tables.
     bind_exn (table_sizes_loop st tables []) (\<lambda>table_sizes.
       (let health_indicators =
              [(key ''categories'', category_count > 0),
               (key ''products'', product_count > 0),
               (key ''users'', user_count > 0),
               (key ''low_stock'', low_stock_count < 10),
               (key ''database'', db_health = PStr (lit ''ok''))];
            health_score = health_score_of_indicators (map snd health_indicators);
            health_status = health_status_of_score health_score
        in Inr (PDict
          [(key ''system_metrics'', PDict
             [(key ''categories'', PInt category_count),
              (key ''products'', PInt product_count),
              (key ''active_users'', PInt user_count),
              (key ''roles'', PInt role_count),
              (key ''low_stock_alerts'', PInt low_stock_count),
              (key ''database_health'', db_health),
              (key ''table_sizes'', PDict table_sizes),
              (key ''health_score'', PFloat (Finite (round1 health_score))),
              (key ''health_status'', PStr health_status)]),
           (key ''health_indicators'',
              PDict (map (\<lambda>(k, b). (k, PBool b)) health_indicators))])))))))))))))"

definition system_health_failed :: "pyexn \<Rightarrow> pyval" where
  "system_health_failed e = PDict
     [(key ''system_metrics'', PDict
        [(key ''categories'', PInt 0),
         (key ''products'', PInt 0),
         (key ''active_users'', PInt 0),
         (key ''roles'', PInt 0),
         (key ''low_stock_alerts'', PInt 0),
         (key ''database_health'', PStr (lit ''unknown'')),
         (key ''health_score'', PInt 0),
         (key ''health_status'', PStr (lit ''error'')),
         (key ''error'', PStr (str_exn e))])]"

definition get_system_health :: "storage \<Rightarrow> pyval" where
  "get_system_health st =
     (case get_system_health_try st of Inl e \<Rightarrow> system_health_failed e | Inr r \<Rightarrow> r)"

section \<open>The inventory database behind the storage\<close>

text \<open>
  The tables of \<open>database.py\<close>, with the columns the aggregator reads. A product has
  an integer stock (\<open>stock_quantity INTEGER NOT NULL\<close>) and a float price
  (\<open>price REAL NOT NULL\<close>); \<open>is_active\<close> may be NULL. \<open>integrity_check\<close> is the first row
  of \<open>PRAGMA integrity_check\<close>: \<open>ok\<close> for a sound file.
\<close>

record product =
  product_id :: int
  category_id :: int
  subcategory_id :: int
  product_name :: pystr
  price :: pyfloat
  stock_quantity :: int

record product_category =
  pc_category_id :: int
  pc_subcategory_id :: int
  category_name :: pystr

record user =
  username :: pystr
  role_id :: int
  is_active :: "bool option"

record role =
  r_role_id :: int
  role_name :: pystr

record database =
  tbl_product_category :: "product_category list"
  tbl_product :: "product list"
  tbl_users :: "user list"
  tbl_roles :: "role list"
  integrity_check :: pystr

text \<open>
  \<open>FROM product p JOIN product_category pc ON p.category_id = pc.category_id AND
  p.subcategory_id = pc.subcategory_id\<close>.
\<close>

definition joined :: "database \<Rightarrow> (product \<times> product_category) list" where
  "joined db =
     concat (map (\<lambda>p. map (Pair p)
       (filter (\<lambda>pc. category_id p = pc_category_id pc \<and> subcategory_id p = pc_subcategory_id pc)
          (tbl_product_category db)))
       (tbl_product db))"

text \<open>
  \<open>WHERE p.stock_quantity < ? ORDER BY p.stock_quantity ASC\<close>. The order among equal
  stocks, which SQL leaves open, is the order of the join here.
\<close>

definition low_stock_select :: "database \<Rightarrow> int \<Rightarrow> (product \<times> product_category) list" where
  "low_stock_select db threshold =
     sort_key (\<lambda>(p, pc). stock_quantity p)
       (filter (\<lambda>(p, pc). stock_quantity p < threshold) (joined db))"

text \<open>\<open>SELECT p.*, pc.category_name\<close>.\<close>

definition product_row :: "product \<times> product_category \<Rightarrow> row" where
  "product_row x =
     (case x of (p, pc) \<Rightarrow>
       [(key ''product_id'', PInt (product_id p)),
        (key ''category_id'', PInt (category_id p)),
        (key ''subcategory_id'', PInt (subcategory_id p)),
        (key ''product_name'', PStr (product_name p)),
        (key ''price'', PFloat (price p)),
        (key ''stock_quantity'', PInt (stock_quantity p)),
        (key ''category_name'', PStr (category_name pc))])"

definition count_row :: "nat \<Rightarrow> row list" where
  "count_row n = [[(key ''count'', PInt (int n))]]"

text \<open>The tables \<open>init_db\<close> creates, as \<open>sqlite_master\<close> lists them.\<close>

definition table_names :: "string list" where
  "table_names = [''roles'', ''product_category'', ''product'', ''users'']"

definition count_table :: "database \<Rightarrow> pyval \<Rightarrow> pyexn + row list" where
  "count_table db t =
     (if t = key ''roles'' then Inr (count_row (length (tbl_roles db)))
      else if t = key ''product_category'' then Inr (count_row (length (tbl_product_category db)))
      else if t = key ''product'' then Inr (count_row (length (tbl_product db)))
      else if t = key ''users'' then Inr (count_row (length (tbl_users db)))
      else Inl (Exn StorageError (lit ''no such table'')))"

text \<open>
  The storage over a database state: the statements of \<open>get_low_stock_products\<close> and
  \<open>get_system_health\<close> are answered from the tables; the other statements are left to
  \<open>rest\<close>. A threshold outside 64 bits cannot be bound to the statement.
\<close>

definition sqlite :: "database \<Rightarrow> storage \<Rightarrow> storage" where
  "sqlite db rest q =
     (case q of
        Connect \<Rightarrow> Inr []
      | LowStock threshold \<Rightarrow>
          (if - (2 ^ 63) \<le> threshold \<and> threshold < 2 ^ 63
           then Inr (map product_row (low_stock_select db threshold))
           else Inl (Exn OverflowError (lit ''Python int too large to convert to SQLite INTEGER'')))
      | CountCategories \<Rightarrow> Inr (count_row (length (tbl_product_category db)))
      | CountProducts \<Rightarrow> Inr (count_row (length (tbl_product db)))
      | CountActiveUsers \<Rightarrow>
          Inr (count_row (length (filter (\<lambda>u. is_active u = Some True) (tbl_users db))))
      | CountRoles \<Rightarrow> Inr (count_row (length (tbl_roles db)))
      | IntegrityCheck \<Rightarrow> Inr [[(key ''integrity_check'', PStr (integrity_check db))]]
      | TableNames \<Rightarrow> Inr (map (\<lambda>n. [(key ''name'', key n)]) table_names)
      | CountTable t \<Rightarrow> count_table db t
      | _ \<Rightarrow> rest q)"






definition system_health_own_statements :: "sql list" where
  "system_health_own_statements =
     [Connect, CountCategories, CountProducts, CountActiveUsers, CountRoles,
      IntegrityCheck, TableNames]"

text \<open>A storage on which every statement fails.\<close>

definition failing_storage :: storage where
  "failing_storage q = Inl (Exn StorageError (lit ''unable to open database file''))"

text \<open>
  A database file without tables (a fresh file before \<open>init_db\<close> has run): the
  connection opens, the integrity check is \<open>ok\<close>, no table is listed, and every
  statement that names a table fails.
\<close>

definition empty_file :: storage where
  "empty_file q =
     (case q of
        Connect \<Rightarrow> Inr []
      | IntegrityCheck \<Rightarrow> Inr [[(key ''integrity_check'', key ''ok'')]]
      | TableNames \<Rightarrow> Inr []
      | _ \<Rightarrow> Inl (Exn StorageError (lit ''no such table'')))"


text \<open>What a caller reads off the results.\<close>

definition stock_of :: "row \<Rightarrow> int" where
  "stock_of r = int_value (get_default r (key ''stock_quantity'') PNone)"

definition system_metric :: "string \<Rightarrow> pyval \<Rightarrow> pyval option" where
  "system_metric k r =
     (case r of
        PDict d \<Rightarrow>
          (case map_of d (key ''system_metrics'') of
             Some (PDict m) \<Rightarrow> map_of m (key k)
           | _ \<Rightarrow> None)
      | _ \<Rightarrow> None)"

definition health_indicators_of :: "pyval \<Rightarrow> pyval list" where
  "health_indicators_of r =
     (case r of
        PDict d \<Rightarrow>
          (case map_of d (key ''health_indicators'') of
             Some (PDict hs) \<Rightarrow> map snd hs
           | _ \<Rightarrow> [])
      | _ \<Rightarrow> [])"


definition example_db :: database where
  "example_db =
     \<lparr>tbl_product_category =
        [\<lparr>pc_category_id = 1, pc_subcategory_id = 1, category_name = lit ''Tools''\<rparr>],
      tbl_product =
        [\<lparr>product_id = 1, category_id = 1, subcategory_id = 1, product_name = lit ''Saw'',
          price = Finite 12, stock_quantity = 7\<rparr>,
         \<lparr>product_id = 2, category_id = 1, subcategory_id = 1, product_name = lit ''Drill'',
          price = Finite 80, stock_quantity = 25\<rparr>,
         \<lparr>product_id = 3, category_id = 1, subcategory_id = 1, product_name = lit ''File'',
          price = Finite 5, stock_quantity = 2\<rparr>],
      tbl_users = [\<lparr>username = lit ''ann'', role_id = 1, is_active = Some True\<rparr>],
      tbl_roles = [\<lparr>r_role_id = 1, role_name = lit ''admin''\<rparr>],
      integrity_check = lit ''ok''\<rparr>"

section \<open>Completion client\<close>

text \<open>
  What the process does towards the outside while it serves the model: a call of
  \<open>client.list()\<close>, a call of \<open>client.generate(model, prompt)\<close>, a \<open>time.sleep(seconds)\<close>.
  Every function that may call the service takes the log of the calls made so far
  and returns it extended.
\<close>

datatype netcall = ListModels | Generate pystr pystr | Sleep nat

text \<open>
  The model service as the agents meet it. \<open>import_error\<close> and \<open>client_error\<close> are the
  failures of \<open>import ollama\<close> and \<open>ollama.Client()\<close>. \<open>listing\<close> is the outcome of
  \<open>client.list()\<close> with the names the agents read off the reply (the agents accept
  several shapes of reply; the model starts from the names). \<open>generate\<close> is the outcome
  of \<open>client.generate\<close>: it may differ from call to call, so it depends on the number
  of entries of the log at the call; a reply is its \<open>response\<close> text, or \<open>None\<close> when the
  reply is empty or has no such field.
\<close>

record ollama =
  import_error :: "pyexn option"
  client_error :: "pyexn option"
  listing :: "pyexn + pystr list"
  generate :: "nat \<Rightarrow> pystr \<Rightarrow> pystr \<Rightarrow> pyexn + pystr option"

text \<open>The attributes of an agent: \<open>self.model\<close>, \<open>self.available\<close>, and whether \<open>self.client\<close> is set.\<close>

record agent =
  model :: pystr
  available :: bool
  client :: bool

subsection \<open>\<open>EnhancedAIAgent\<close>\<close>

definition test_connection ::
  "ollama \<Rightarrow> agent \<Rightarrow> netcall list \<Rightarrow> bool \<times> agent \<times> netcall list" where
  "test_connection env a calls =
     (case listing env of
        Inl e \<Rightarrow> (False, a, calls @ [ListModels])
      | Inr available_models \<Rightarrow>
          (if available_models \<noteq> [] then
             (let a' = a\<lparr>model := hd available_models\<rparr>;
                  calls' = calls @ [ListModels]
              in case generate env (length calls') (model a') (lit ''Test connection'') of
                   Inl e \<Rightarrow> (False, a', calls' @ [Generate (model a') (lit ''Test connection'')])
                 | Inr reply \<Rightarrow>
                     (reply \<noteq> None, a', calls' @ [Generate (model a') (lit ''Test connection'')]))
           else (False, a, calls @ [ListModels])))"

text \<open>\<open>EnhancedAIAgent.__init__\<close>: the agent it leaves and the calls it made.\<close>

definition enhanced_init :: "ollama \<Rightarrow> pystr \<Rightarrow> agent \<times> netcall list" where
  "enhanced_init env model0 =
     (let a = \<lparr>model = model0, available = False, client = False\<rparr> in
      case import_error env of
        Some e \<Rightarrow> (a, [])
      | None \<Rightarrow>
          (case client_error env of
             Some e \<Rightarrow> (a, [])
           | None \<Rightarrow>
               (case test_connection env (a\<lparr>client := True\<rparr>) [] of
                  (ok, a', calls) \<Rightarrow> (a'\<lparr>available := ok\<rparr>, calls))))"

definition unavailable_message :: pystr where
  "unavailable_message = lit ''AI service is currently unavailable.''"

text \<open>\<open>EnhancedAIAgent.safe_generate\<close>: the text returned and the log.\<close>

definition safe_generate :: "ollama \<Rightarrow> agent \<Rightarrow> pystr \<Rightarrow> netcall list \<Rightarrow> pystr \<times> netcall list" where
  "safe_generate env a prompt calls =
     (if \<not> available a \<or> \<not> client a then (unavailable_message, calls)
      else case generate env (length calls) (model a) prompt of
             Inr reply \<Rightarrow>
               (case reply of None \<Rightarrow> lit ''No response generated'' | Some text \<Rightarrow> text,
                calls @ [Generate (model a) prompt])
           | Inl e \<Rightarrow>
               (lit ''Error generating response: '' @ str_exn e,
                calls @ [Generate (model a) prompt]))"

subsection \<open>\<open>AIAgent\<close>\<close>

text \<open>\<open>s.strip(chars)\<close>, and the cleaning \<open>name.strip().strip("'\"")\<close> of a model name.\<close>

definition strip_chars :: "pystr \<Rightarrow> pystr \<Rightarrow> pystr" where
  "strip_chars chars s =
     rev (dropWhile (\<lambda>c. c \<in> set chars) (rev (dropWhile (\<lambda>c. c \<in> set chars) s)))"

definition clean_name :: "pystr \<Rightarrow> pystr" where
  "clean_name s = strip_chars [39, 34] (strip s)"

definition test_prompt :: pystr where
  "test_prompt =
     lit ''Hello, please respond with 'AI Agent is working' to confirm everything is working.''"

definition test_model_generation :: "ollama \<Rightarrow> agent \<Rightarrow> netcall list \<Rightarrow> agent \<times> netcall list" where
  "test_model_generation env a calls =
     (let clean_model = clean_name (model a) in
      case generate env (length calls) clean_model test_prompt of
        Inr reply \<Rightarrow> (a\<lparr>available := (reply \<noteq> None)\<rparr>, calls @ [Generate clean_model test_prompt])
      | Inl e \<Rightarrow> (a\<lparr>available := False\<rparr>, calls @ [Generate clean_model test_prompt]))"

text \<open>
  The search for the configured model: the first listed name that, cleaned and
  lower-cased, equals or contains the lower-cased configured name.
\<close>

fun find_target :: "(pystr \<Rightarrow> pystr) \<Rightarrow> pystr \<Rightarrow> pystr list \<Rightarrow> pystr option" where
  "find_target lower target [] = None"
| "find_target lower target (model_name # names) =
     (let clean_model_name = clean_name model_name in
      if lower target = lower clean_model_name \<or> str_in (lower target) (lower clean_model_name)
      then Some clean_model_name
      else find_target lower target names)"

definition test_ollama_connection ::
  "(pystr \<Rightarrow> pystr) \<Rightarrow> ollama \<Rightarrow> agent \<Rightarrow> netcall list \<Rightarrow> agent \<times> netcall list" where
  "test_ollama_connection lower env a calls =
     (case listing env of
        Inl e \<Rightarrow> (a\<lparr>available := False\<rparr>, calls @ [ListModels])
      | Inr available_models \<Rightarrow>
          (if available_models = [] then (a\<lparr>available := False\<rparr>, calls @ [ListModels])
           else
             (case find_target lower (model a) available_models of
                Some actual_model_name \<Rightarrow>
                  (if actual_model_name \<noteq> [] then
                     test_model_generation env
                       (a\<lparr>model := actual_model_name, available := True\<rparr>) (calls @ [ListModels])
                   else
                     test_model_generation env
                       (a\<lparr>model := clean_name (hd available_models), available := True\<rparr>)
                       (calls @ [ListModels]))
              | None \<Rightarrow>
                  test_model_generation env
                    (a\<lparr>model := clean_name (hd available_models), available := True\<rparr>)
                    (calls @ [ListModels]))))"

text \<open>\<open>AIAgent.__init__\<close>.\<close>

definition ai_init :: "(pystr \<Rightarrow> pystr) \<Rightarrow> ollama \<Rightarrow> pystr \<Rightarrow> agent \<times> netcall list" where
  "ai_init lower env model0 =
     (let a = \<lparr>model = model0, available = False, client = False\<rparr> in
      case import_error env of
        Some e \<Rightarrow> (a, [])
      | None \<Rightarrow>
          (case client_error env of
             Some e \<Rightarrow> (a, [])
           | None \<Rightarrow> test_ollama_connection lower env (a\<lparr>client := True\<rparr>) []))"

definition ai_unavailable_message :: pystr where
  "ai_unavailable_message =
     lit ''AI service is currently unavailable. Please check if Ollama is running.''"

definition ai_apology :: pystr where
  "ai_apology = lit ''I apologize, but I'm having trouble generating a response right now. Please try again later or check the Ollama service.''"

text \<open>
  The loop \<open>for attempt in range(max_retries)\<close> of \<open>AIAgent.safe_generate\<close>, with the
  attempts left and the number of the attempt. An empty reply goes to the next
  attempt at once; an exception sleeps \<open>(attempt + 1) * 5\<close> seconds first, unless the
  attempt was the last.
\<close>

fun retry_loop ::
  "ollama \<Rightarrow> agent \<Rightarrow> pystr \<Rightarrow> nat \<Rightarrow> nat \<Rightarrow> netcall list \<Rightarrow> pystr \<times> netcall list" where
  "retry_loop env a prompt 0 attempt calls = (ai_apology, calls)"
| "retry_loop env a prompt (Suc left) attempt calls =
     (let clean_model = clean_name (model a);
          calls' = calls @ [Generate clean_model prompt]
      in case generate env (length calls) clean_model prompt of
           Inr (Some text) \<Rightarrow> (text, calls')
         | Inr None \<Rightarrow> retry_loop env a prompt left (Suc attempt) calls'
         | Inl e \<Rightarrow>
             (if left > 0
              then retry_loop env a prompt left (Suc attempt) (calls' @ [Sleep ((attempt + 1) * 5)])
              else retry_loop env a prompt left (Suc attempt) calls'))"

definition ai_safe_generate ::
  "ollama \<Rightarrow> agent \<Rightarrow> pystr \<Rightarrow> nat \<Rightarrow> netcall list \<Rightarrow> pystr \<times> netcall list" where
  "ai_safe_generate env a prompt max_retries calls =
     (if \<not> available a \<or> \<not> client a then (ai_unavailable_message, calls)
      else retry_loop env a prompt max_retries 0 calls)"

text \<open>A service with no model registered, and one with a model that answers.\<close>

definition no_models :: ollama where
  "no_models =
     \<lparr>import_error = None, client_error = None, listing = Inr [],
      generate = (\<lambda>n m p. Inr (Some (lit ''an answer'')))\<rparr>"

definition one_model :: ollama where
  "one_model =
     \<lparr>import_error = None, client_error = None, listing = Inr [lit ''llama3.1:latest''],
      generate = (\<lambda>n m p. Inr (Some (lit ''an answer'')))\<rparr>"

section \<open>The assistant pipeline\<close>

text \<open>
  The dictionary \<open>supervisor_agent\<close> returns; \<open>agent_type\<close> is its \<open>type\<close> entry.
\<close>

record agent_result =
  response :: pystr
  agent_type :: pystr
  data :: pyval
  reasoning :: pystr
  needs_human_review :: bool

text \<open>The \<open>except\<close> branch of \<open>supervisor_agent\<close>.\<close>

definition supervisor_failed :: "pyexn \<Rightarrow> agent_result" where
  "supervisor_failed e =
     \<lparr>response = lit ''Error processing request: '' @ str_exn e,
      agent_type = lit ''error'',
      data = PDict [],
      reasoning = lit ''Error: '' @ str_exn e,
      needs_human_review = True\<rparr>"

text \<open>
  \<open>EnhancedAIAgent.supervisor_agent\<close>. The assembly of the business data
  (\<open>get_comprehensive_business_data\<close>) and the templating of the prompt
  (\<open>create_data_rich_prompt\<close>) are the parameters \<open>collect\<close> and \<open>compose\<close>: each gives
  its result or the exception it raises. The classification and the completion call
  are the functions above.
\<close>

definition supervisor_agent ::
  "(pystr \<Rightarrow> pystr) \<Rightarrow> ollama \<Rightarrow> agent \<Rightarrow> (pystr \<Rightarrow> pyexn + pyval)
   \<Rightarrow> (pystr \<Rightarrow> pystr \<Rightarrow> pystr \<Rightarrow> pyval \<Rightarrow> pyexn + pystr)
   \<Rightarrow> pystr \<Rightarrow> pystr \<Rightarrow> netcall list \<Rightarrow> agent_result \<times> netcall list" where
  "supervisor_agent lower env a collect compose query user_role calls =
     (case collect query of
        Inl e \<Rightarrow> (supervisor_failed e, calls)
      | Inr real_data \<Rightarrow>
          (let agent_type = analyze_query_type lower query in
           case compose query user_role agent_type real_data of
             Inl e \<Rightarrow> (supervisor_failed e, calls)
           | Inr prompt \<Rightarrow>
               (case safe_generate env a prompt calls of
                  (answer, calls') \<Rightarrow>
                    (\<lparr>response = answer,
                      agent_type = agent_type,
                      data = real_data,
                      reasoning = lit ''Used '' @ agent_type
                        @ lit '' approach with comprehensive business data'',
                      needs_human_review = False\<rparr>, calls'))))"

text \<open>\<open>apply_response_style\<close> of \<open>main.py\<close>.\<close>

definition apply_response_style :: "pystr \<Rightarrow> pyval \<Rightarrow> pystr" where
  "apply_response_style answer style =
     (if style = key ''Formal'' then lit ''**Formal Analysis:**'' @ [newline, newline] @ answer
      else if style = key ''Technical''
        then lit ''**Technical Assessment:**'' @ [newline, newline] @ answer
      else if style = key ''Storytelling''
        then lit ''**Narrative Insights:**'' @ [newline, newline] @ answer
      else answer)"

text \<open>Python's truth value of a value, as \<open>if not user_input\<close> reads it.\<close>

fun truthy :: "pyval \<Rightarrow> bool" where
  "truthy PNone = False"
| "truthy (PBool b) = b"
| "truthy (PInt n) = (n \<noteq> 0)"
| "truthy (PFloat f) = (f \<noteq> Finite 0)"
| "truthy (PStr s) = (s \<noteq> [])"
| "truthy (PList xs) = (xs \<noteq> [])"
| "truthy (PDict d) = (d \<noteq> [])"
| "truthy PObject = True"

text \<open>The dictionary the endpoint returns.\<close>

record query_response =
  qr_response :: pystr
  qr_agent_type :: pystr
  qr_data :: pyval
  qr_reasoning :: pystr
  qr_actions :: "pystr list"
  qr_needs_human_review :: bool

text \<open>
  The body of the \<open>try\<close> of \<open>enhanced_ai_query\<close>. \<open>query_data\<close> is the JSON object of the
  request. A query that is not a string has no \<open>lower\<close> method: the agent raises
  \<open>AttributeError\<close> inside its own \<open>try\<close> and answers with its error result.
\<close>

text \<open>\<open>type(v).__name__\<close>, and the text of the \<open>AttributeError\<close> of \<open>v.lower()\<close>.\<close>

fun type_name :: "pyval \<Rightarrow> string" where
  "type_name PNone = ''NoneType''"
| "type_name (PBool b) = ''bool''"
| "type_name (PInt n) = ''int''"
| "type_name (PFloat f) = ''float''"
| "type_name (PStr s) = ''str''"
| "type_name (PList xs) = ''list''"
| "type_name (PDict d) = ''dict''"
| "type_name PObject = ''object''"

definition no_lower_attribute :: "pyval \<Rightarrow> pyexn" where
  "no_lower_attribute v =
     Exn AttributeError
       ([39] @ lit (type_name v) @ [39] @ lit '' object has no attribute '' @ [39]
        @ lit ''lower'' @ [39])"

definition enhanced_ai_query_try ::
  "(pystr \<Rightarrow> pystr) \<Rightarrow> ollama \<Rightarrow> agent \<Rightarrow> (pystr \<Rightarrow> pyexn + pyval)
   \<Rightarrow> (pystr \<Rightarrow> pystr \<Rightarrow> pystr \<Rightarrow> pyval \<Rightarrow> pyexn + pystr)
   \<Rightarrow> row \<Rightarrow> pystr \<Rightarrow> netcall list \<Rightarrow> (pyexn + query_response) \<times> netcall list" where
  "enhanced_ai_query_try lower env a collect compose query_data user_role calls =
     (let user_input = get_default query_data (key ''query'') (PStr []);
          response_style = get_default query_data (key ''response_style'') (key ''Conversational'')
      in
      if \<not> truthy user_input then (Inl (HTTPException 400 (lit ''Query is required'')), calls)
      else
        (case (case user_input of
                 PStr query \<Rightarrow> supervisor_agent lower env a collect compose query user_role calls
               | _ \<Rightarrow> (supervisor_failed (no_lower_attribute user_input), calls)) of
           (result, calls') \<Rightarrow>
             (let enhanced_response = apply_response_style (response result) response_style in
              (Inr \<lparr>qr_response = enhanced_response,
                    qr_agent_type = agent_type result,
                    qr_data = data result,
                    qr_reasoning = reasoning result,
                    qr_actions = extract_actions_from_response enhanced_response,
                    qr_needs_human_review = needs_human_review result\<rparr>, calls'))))"

text \<open>
  \<open>enhanced_ai_query\<close>: the \<open>try\<close> with its \<open>except Exception\<close>, which turns whatever was
  raised into \<open>HTTPException(status_code=500)\<close>. \<open>Inl\<close> is the exception the endpoint
  leaves to the framework, which answers with its status code.
\<close>

definition enhanced_ai_query ::
  "(pystr \<Rightarrow> pystr) \<Rightarrow> ollama \<Rightarrow> agent \<Rightarrow> (pystr \<Rightarrow> pyexn + pyval)
   \<Rightarrow> (pystr \<Rightarrow> pystr \<Rightarrow> pystr \<Rightarrow> pyval \<Rightarrow> pyexn + pystr)
   \<Rightarrow> row \<Rightarrow> pystr \<Rightarrow> netcall list \<Rightarrow> (pyexn + query_response) \<times> netcall list" where
  "enhanced_ai_query lower env a collect compose query_data user_role calls =
     (case enhanced_ai_query_try lower env a collect compose query_data user_role calls of
        (Inl e, calls') \<Rightarrow>
          (Inl (HTTPException 500 (lit ''AI processing error: '' @ str_exn e)), calls')
      | (Inr r, calls') \<Rightarrow> (Inr r, calls'))"

text \<open>The status code of the answer: 200 for a returned dictionary.\<close>

definition status_code :: "pyexn + query_response \<Rightarrow> int" where
  "status_code r =
     (case r of Inr ok \<Rightarrow> 200 | Inl (HTTPException code detail) \<Rightarrow> code | Inl (Exn c m) \<Rightarrow> 500)"

text \<open>
  \<open>update_user_role\<close> of \<open>main.py\<close> checks its request the same way, outside any \<open>try\<close>:
  a missing \<open>role_id\<close> leaves the endpoint as \<open>HTTPException(status_code=400)\<close>. The
  update itself is the parameter \<open>update\<close>.
\<close>

definition update_user_role :: "(pyval \<Rightarrow> pyexn + 'a) \<Rightarrow> row \<Rightarrow> pyexn + 'a" where
  "update_user_role update role_update =
     (let role_id = get_default role_update (key ''role_id'') PNone in
      if \<not> truthy role_id then Inl (HTTPException 400 (lit ''role_id is required''))
      else update role_id)"

text \<open>A query, an assembly that succeeds, and the two requests without a query text.\<close>

definition example_query :: pystr where
  "example_query = lit ''show me products with low stock''"

definition collected :: "pystr \<Rightarrow> pyexn + pyval" where
  "collected query = Inr (PDict [(key ''summary'', PDict [])])"

definition composed :: "pystr \<Rightarrow> pystr \<Rightarrow> pystr \<Rightarrow> pyval \<Rightarrow> pyexn + pystr" where
  "composed query user_role intent real_data = Inr (lit ''USER QUERY: '' @ query)"

definition request_without_query :: row where
  "request_without_query = [(key ''response_style'', key ''Formal'')]"

definition request_with_empty_query :: row where
  "request_with_empty_query = [(key ''query'', PStr [])]"

section \<open>Properties of action extraction\<close>

lemmas eval_defs =
  lit_def newline_def bullet_def isspace_def lstrip_def rstrip_def strip_def
  lstrip_chars_def startswith_def marker_chars_def markers_main_def markers_ui_def
  extract_actions_from_response_def extract_actions_from_response_ui_def
  after_markers_def

lemma four_lines_main:
  "extract_actions_from_response example_four_lines = [lit ''Do X immediately'']"
  by (simp add: example_four_lines_def eval_defs)

lemma four_lines_ui:
  "extract_actions_from_response_ui example_four_lines = [lit ''Do X immediately'']"
  by (simp add: example_four_lines_def eval_defs)

text \<open>
  C1 as stated: the four-line input gives the two actions \<open>Do X immediately\<close> and
  \<open>Do Y now\<close>. Neither implementation returns that list.
\<close>

theorem C1_two_actions_counterexample:
  "extract_actions_from_response example_four_lines
     \<noteq> [lit ''Do X immediately'', lit ''Do Y now'']
   \<and> extract_actions_from_response_ui example_four_lines
     \<noteq> [lit ''Do X immediately'', lit ''Do Y now'']"
  by (simp add: four_lines_main four_lines_ui)

text \<open>
  C1 (amended): on the four-line input both implementations return exactly the one
  action \<open>Do X immediately\<close>. The bold heading and the line without a marker are
  dropped, and so is \<open>1. Do Y now\<close>: its action text has 8 characters, not more than
  the 10 that \<open>main.py\<close> asks for, and the line has 11, not more than the 15 that
  \<open>enhanced_streamlit.py\<close> asks for.
\<close>

theorem C1_four_lines_one_action:
  "extract_actions_from_response example_four_lines = [lit ''Do X immediately'']
   \<and> extract_actions_from_response_ui example_four_lines = [lit ''Do X immediately'']
   \<and> length (lit ''Do Y now'') = 8 \<and> length (lit ''1. Do Y now'') = 11"
  by (simp add: four_lines_main four_lines_ui) (simp add: lit_def)

subsection \<open>Marker stripping\<close>














section \<open>Properties of the query classifier\<close>

lemma str_in_iff: "str_in word s \<longleftrightarrow> (\<exists>ps ss. s = ps @ word @ ss)"
proof (induction s)
  case Nil
  then show ?case by auto
next
  case (Cons c cs)
  show ?case
  proof
    assume "str_in word (c # cs)"
    then consider "prefix word (c # cs)" | "str_in word cs" by auto
    then show "\<exists>ps ss. c # cs = ps @ word @ ss"
    proof cases
      case 1
      then obtain ss where "c # cs = word @ ss" by (auto simp: prefix_def)
      then have "c # cs = [] @ word @ ss" by simp
      then show ?thesis by blast
    next
      case 2
      with Cons.IH obtain ps ss where "cs = ps @ word @ ss" by blast
      then have "c # cs = (c # ps) @ word @ ss" by simp
      then show ?thesis by blast
    qed
  next
    assume "\<exists>ps ss. c # cs = ps @ word @ ss"
    then obtain ps ss where e: "c # cs = ps @ word @ ss" by blast
    show "str_in word (c # cs)"
    proof (cases ps)
      case Nil
      with e have "prefix word (c # cs)" by (simp add: prefix_def)
      then show ?thesis by simp
    next
      case (Cons p ps')
      with e have "cs = ps' @ word @ ss" by simp
      with Cons.IH have "str_in word cs" by blast
      then show ?thesis by simp
    qed
  qed
qed

lemma review_in_supervisor_words:
  "str_in (lit ''review'') s \<Longrightarrow> any_in supervisor_words s"
  by (simp add: any_in_def supervisor_words_def)

lemma review_in_crag_words:
  "str_in (lit ''review'') s \<Longrightarrow> any_in crag_words s"
  by (simp add: any_in_def crag_words_def)

text \<open>
  C3: a query whose lower-cased text contains \<open>review\<close> and none of the planner,
  analytics or retrieval keywords is classified \<open>supervisor\<close> and not \<open>crag\<close>, although
  \<open>review\<close> is a keyword of both lists: the supervisor list is tested first.
\<close>

theorem C3_review_is_supervisor:
  assumes "str_in (lit ''review'') (lower query)"
    and "\<not> any_in planner_words (lower query)"
    and "\<not> any_in analytics_words (lower query)"
    and "\<not> any_in rag_words (lower query)"
  shows "analyze_query_type lower query = lit ''supervisor''
    \<and> analyze_query_type lower query \<noteq> lit ''crag''
    \<and> any_in supervisor_words (lower query) \<and> any_in crag_words (lower query)"
proof -
  have s: "any_in supervisor_words (lower query)"
    using assms(1) by (rule review_in_supervisor_words)
  have c: "any_in crag_words (lower query)"
    using assms(1) by (rule review_in_crag_words)
  have "analyze_query_type lower query = lit ''supervisor''"
    using assms(2-4) s by (simp add: analyze_query_type_def)
  moreover have "lit ''supervisor'' \<noteq> lit ''crag''" by (simp add: lit_def)
  ultimately show ?thesis using s c by simp
qed

theorem C3_review_is_supervisor_witness:
  "analyze_query_type lower_ascii example_review_query = lit ''supervisor''
   \<and> str_in (lit ''review'') (lower_ascii example_review_query)"
proof -
  have l: "lower_ascii example_review_query = lit ''please review our stock levels''"
    by (simp add: lower_ascii_def example_review_query_def lit_def)
  have 1: "str_in (lit ''review'') (lower_ascii example_review_query)"
    unfolding l by (simp add: lit_def)
  have 2: "\<not> any_in planner_words (lower_ascii example_review_query)"
    unfolding l by (simp add: any_in_def planner_words_def lit_def)
  have 3: "\<not> any_in analytics_words (lower_ascii example_review_query)"
    unfolding l by (simp add: any_in_def analytics_words_def lit_def)
  have 4: "\<not> any_in rag_words (lower_ascii example_review_query)"
    unfolding l by (simp add: any_in_def rag_words_def lit_def)
  show ?thesis
    using C3_review_is_supervisor [of lower_ascii example_review_query, OF 1 2 3 4] 1 by simp
qed

section \<open>Properties of the coercion helpers\<close>

lemma safe_on_None: "safe_float PNone = Inr (Finite 0) \<and> safe_int PNone = Inr 0"
  by (simp add: safe_float_def safe_int_def)

lemma abc_is_no_number:
  "int_of_str (lit ''abc'') = Inl (Exn ValueError (lit ''invalid literal for int() with base 10''))
   \<and> float_of_str (lit ''abc'') = Inl (Exn ValueError (lit ''could not convert string to float''))"
  by (simp add: int_of_str_def float_of_str_def decimal_of_str_def mantissa_def digits_def
      signed_def is_digit_def is_exp_char_def lower_ascii_def eval_defs)

lemma safe_on_abc:
  "safe_float (PStr (lit ''abc'')) = Inr (Finite 0) \<and> safe_int (PStr (lit ''abc'')) = Inr 0"
  by (simp add: safe_float_def safe_int_def abc_is_no_number)

lemma parse_examples:
  "py_int (PStr (lit '' -1_000 '')) = Inr (- 1000)
   \<and> py_float (PStr (lit ''12.5e1'')) = Inr (Finite 125)
   \<and> py_float (PStr (lit ''-Infinity'')) = Inr NegInf
   \<and> py_int (PFloat (Finite (- 5 / 2))) = Inr (- 2)"
  by (simp add: int_of_str_def float_of_str_def decimal_of_str_def mantissa_def digits_def
      signed_def is_digit_def is_exp_char_def lower_ascii_def float_of_real_def float_limit_def
      eval_defs)

text \<open>Where the helpers let an exception through, and only there.\<close>

lemma safe_int_raises_iff:
  "(\<exists>e. safe_int v = Inl e) \<longleftrightarrow> v = PFloat PosInf \<or> v = PFloat NegInf"
proof (cases v)
  case (PFloat f)
  then show ?thesis by (cases f) (auto simp: safe_int_def)
next
  case (PStr s)
  then show ?thesis
    by (auto simp: safe_int_def int_of_str_def split: prod.splits option.splits)
qed (auto simp: safe_int_def)

lemma safe_float_raises_iff:
  "(\<exists>e. safe_float v = Inl e) \<longleftrightarrow> (\<exists>i. v = PInt i \<and> float_limit \<le> \<bar>of_int i\<bar>)"
proof (cases v)
  case (PStr s)
  then show ?thesis
    by (auto simp: safe_float_def float_of_str_def Let_def split: prod.splits option.splits)
qed (auto simp: safe_float_def)

text \<open>
  C9 at its failing inputs: \<open>safe_int\<close> of an infinite float and \<open>safe_float\<close> of the integer
  \<open>2^1024\<close> raise \<open>OverflowError\<close>, which \<open>except (ValueError, TypeError)\<close> does not catch;
  the helpers do not return 0 there.
\<close>

theorem C9_overflow_escapes:
  "safe_int (PFloat PosInf)
     = Inl (Exn OverflowError (lit ''cannot convert float infinity to integer''))
   \<and> safe_float (PInt (2 ^ 1024))
     = Inl (Exn OverflowError (lit ''int too large to convert to float''))"
  by (simp add: safe_int_def safe_float_def float_limit_def)

section \<open>Properties of the metrics aggregator\<close>

lemma key_eq_iff [simp]: "key a = key b \<longleftrightarrow> a = b"
  by (simp add: key_def lit_def inj_map_eq_map inj_of_char)

lemma product_dict_product_row: "product_dict (product_row x) = Inr (product_row x)"
  by (cases x)
    (simp add: product_dict_def product_row_def float_field_def int_field_def bind_exn_def
      safe_float_def safe_int_def)

lemma map_exn_all_Inr: "(\<And>x. x \<in> set xs \<Longrightarrow> f x = Inr (g x)) \<Longrightarrow> map_exn f xs = Inr (map g xs)"
  by (induction xs) (simp_all add: bind_exn_def)

lemma low_stock_sqlite:
  "get_low_stock_products (sqlite db rest) T =
     (if - (2 ^ 63) \<le> T \<and> T < 2 ^ 63 then map product_row (low_stock_select db T) else [])"
proof -
  have "map_exn product_dict (map product_row xs) = Inr (map product_row xs)" for xs
    by (induction xs) (simp_all add: bind_exn_def product_dict_product_row)
  then show ?thesis
    by (simp add: get_low_stock_products_def get_low_stock_products_try_def sqlite_def bind_exn_def)
qed

lemma stock_of_product_row: "stock_of (product_row (p, pc)) = stock_quantity p"
  by (simp add: stock_of_def product_row_def get_default_def)

lemma stock_present: "map_of (product_row x) (key ''stock_quantity'') = Some (PInt (stock_quantity (fst x)))"
  by (cases x) (simp add: product_row_def)

lemma sorted_stock_low:
  "sorted (map stock_of (map product_row (low_stock_select db T)))"
proof -
  have "stock_of \<circ> product_row = (\<lambda>(p, pc). stock_quantity p)"
    by (auto simp: stock_of_product_row fun_eq_iff)
  then show ?thesis
    by (simp add: low_stock_select_def)
qed

text \<open>
  C7: for every threshold and every database state, \<open>get_low_stock_products\<close> returns only
  products whose stock quantity is strictly below the threshold, and the returned list
  is in ascending order of stock quantity.
\<close>

theorem C7_low_stock_below_threshold_sorted: 
  "(\<forall>r \<in> set (get_low_stock_products (sqlite db rest) T).
      (\<exists>s. map_of r (key ''stock_quantity'') = Some (PInt s) \<and> s < T) \<and> stock_of r < T)
   \<and> sorted (map stock_of (get_low_stock_products (sqlite db rest) T))"
proof (cases "- (2 ^ 63) \<le> T \<and> T < 2 ^ 63")
  case True
  then have eq: "get_low_stock_products (sqlite db rest) T = map product_row (low_stock_select db T)"
    by (simp add: low_stock_sqlite)
  have "sorted (map stock_of (map product_row (low_stock_select db T)))"
    by (rule sorted_stock_low)
  moreover have "\<forall>r \<in> set (map product_row (low_stock_select db T)). 
     (\<exists>s. map_of r (key ''stock_quantity'') = Some (PInt s) \<and> s < T) \<and> stock_of r < T"
    by (auto simp: low_stock_select_def stock_of_product_row stock_present)
  ultimately show ?thesis unfolding eq by blast
next
  case False
  then show ?thesis by (auto simp: low_stock_sqlite)
qed

lemma example_low_stock:
  "map stock_of (get_low_stock_products (sqlite example_db failing_storage) 10) = [2, 7]"
  by (simp add: low_stock_sqlite low_stock_select_def joined_def example_db_def
      stock_of_product_row)

theorem C7_low_stock_below_threshold_sorted_witness:
  "map stock_of (get_low_stock_products (sqlite example_db failing_storage) 10) = [2, 7]
   \<and> sorted (map stock_of (get_low_stock_products (sqlite example_db failing_storage) 10))
   \<and> stock_of (hd (get_low_stock_products (sqlite example_db failing_storage) 10)) < 10"
proof -
  have "get_low_stock_products (sqlite example_db failing_storage) 10 \<noteq> []"
    using example_low_stock by auto
  then have "hd (get_low_stock_products (sqlite example_db failing_storage) 10)
      \<in> set (get_low_stock_products (sqlite example_db failing_storage) 10)"
    by simp
  then show ?thesis
    using C7_low_stock_below_threshold_sorted [of example_db failing_storage 10]
      example_low_stock by blast
qed

lemma count_of_row: "st q = Inr (count_row n) \<Longrightarrow> count_of st q = Inr (int n)"
  by (simp add: count_of_def count_row_def bind_exn_def fetchone_first_def first_column_def safe_int_def)

lemma sqlite_counts:
  "count_of (sqlite db rest) CountCategories = Inr (int (length (tbl_product_category db)))"
  "count_of (sqlite db rest) CountProducts = Inr (int (length (tbl_product db)))"
  "count_of (sqlite db rest) CountActiveUsers
     = Inr (int (length (filter (\<lambda>u. is_active u = Some True) (tbl_users db))))"
  "count_of (sqlite db rest) CountRoles = Inr (int (length (tbl_roles db)))"
  by (rule count_of_row, simp add: sqlite_def)+

lemma sqlite_table_sizes:
  "table_sizes_loop (sqlite db rest) (map key table_names) []
     = Inr [(key ''roles'', PInt (int (length (tbl_roles db)))),
            (key ''product_category'', PInt (int (length (tbl_product_category db)))),
            (key ''product'', PInt (int (length (tbl_product db)))),
            (key ''users'', PInt (int (length (tbl_users db))))]"
  by (simp add: table_names_def bind_exn_def sqlite_def count_table_def count_of_row)

lemma round1_score: "round1 (real n / 5 * 100) = real n / 5 * 100"
proof -
  have "real n / 5 * 100 * 10 = of_int (200 * int n)" by simp
  then have "round (real n / 5 * 100 * 10) = 200 * int n"
    by (metis round_of_int)
  then show ?thesis by (simp add: round1_def)
qed

lemma round1_five:
  "round1 (health_score_of_indicators [a, b, c, d, e]) = health_score_of_indicators [a, b, c, d, e]"
proof -
  have "health_score_of_indicators [a, b, c, d, e]
      = real (length (filter id [a, b, c, d, e])) / 5 * 100"
    unfolding health_score_of_indicators_def by simp
  then show ?thesis using round1_score by simp
qed

lemma sqlite_fixed:
  "sqlite db rest Connect = Inr []"
  "sqlite db rest IntegrityCheck = Inr [[(key ''integrity_check'', PStr (integrity_check db))]]"
  "sqlite db rest TableNames = Inr (map (\<lambda>n. [(key ''name'', key n)]) table_names)"
  by (simp_all add: sqlite_def)

lemma table_names_columns:
  "map_exn first_column (map (\<lambda>n. [(key ''name'', key n)]) table_names) = Inr (map key table_names)"
  by (simp add: table_names_def bind_exn_def first_column_def)

lemma score_range:
  "0 \<le> health_score_of_indicators [a, b, c, d, e] \<and> health_score_of_indicators [a, b, c, d, e] \<le> 100"
  by (simp add: health_score_of_indicators_def)

text \<open>
  Over any storage, \<open>get_system_health\<close> returns either its error default or a result
  whose score and status are the ones that its five indicators determine.
\<close>

lemma system_health_shape:
  "(\<exists>e. get_system_health st = system_health_failed e)
   \<or> (\<exists>bs. length bs = 5
        \<and> health_indicators_of (get_system_health st) = map PBool bs
        \<and> system_metric ''health_score'' (get_system_health st)
            = Some (PFloat (Finite (health_score_of_indicators bs)))
        \<and> system_metric ''health_status'' (get_system_health st)
            = Some (PStr (health_status_of_score (health_score_of_indicators bs))))"
proof (cases "get_system_health_try st")
  case (Inl e)
  then show ?thesis by (auto simp: get_system_health_def)
next
  case (Inr r)
  then obtain a b c d e where
    "health_indicators_of r = map PBool [a, b, c, d, e]"
    "system_metric ''health_score'' r
       = Some (PFloat (Finite (round1 (health_score_of_indicators [a, b, c, d, e]))))"
    "system_metric ''health_status'' r
       = Some (PStr (health_status_of_score (health_score_of_indicators [a, b, c, d, e])))"
    by (auto simp: get_system_health_try_def bind_exn_def Let_def health_indicators_of_def
        system_metric_def split: sum.splits)
  then have "length [a, b, c, d, e] = 5
        \<and> health_indicators_of r = map PBool [a, b, c, d, e]
        \<and> system_metric ''health_score'' r
            = Some (PFloat (Finite (health_score_of_indicators [a, b, c, d, e])))
        \<and> system_metric ''health_status'' r
            = Some (PStr (health_status_of_score (health_score_of_indicators [a, b, c, d, e])))"
    by (simp add: round1_five)
  then show ?thesis using Inr unfolding get_system_health_def by (simp only: sum.case) blast
qed

text \<open>On the storage of a database state every read succeeds.\<close>

lemma system_health_sqlite_state:
  "\<exists>bs. length bs = 5
     \<and> health_indicators_of (get_system_health (sqlite db rest)) = map PBool bs
     \<and> system_metric ''health_score'' (get_system_health (sqlite db rest))
         = Some (PFloat (Finite (health_score_of_indicators bs)))
     \<and> health_score_of_indicators bs = real (length (filter id bs)) / 5 * 100
     \<and> 0 \<le> health_score_of_indicators bs \<and> health_score_of_indicators bs \<le> 100
     \<and> system_metric ''health_status'' (get_system_health (sqlite db rest))
         = Some (PStr (if health_score_of_indicators bs \<ge> 80 then lit ''excellent''
                       else if health_score_of_indicators bs \<ge> 60 then lit ''good''
                       else lit ''needs_attention''))"
proof -
  define bs where "bs =
     [int (length (tbl_product_category db)) > 0, int (length (tbl_product db)) > 0,
      int (length (filter (\<lambda>u. is_active u = Some True) (tbl_users db))) > 0,
      int (length (get_low_stock_products (sqlite db rest) 10)) < 10,
      PStr (integrity_check db) = PStr (lit ''ok'')]"
  have t: "get_system_health_try (sqlite db rest) = Inr (PDict
          [(key ''system_metrics'', PDict
             [(key ''categories'', PInt (int (length (tbl_product_category db)))),
              (key ''products'', PInt (int (length (tbl_product db)))),
              (key ''active_users'', PInt (int (length (filter (\<lambda>u. is_active u = Some True) (tbl_users db))))),
              (key ''roles'', PInt (int (length (tbl_roles db)))),
              (key ''low_stock_alerts'', PInt (int (length (get_low_stock_products (sqlite db rest) 10)))),
              (key ''database_health'', PStr (integrity_check db)),
              (key ''table_sizes'', PDict [(key ''roles'', PInt (int (length (tbl_roles db)))),
            (key ''product_category'', PInt (int (length (tbl_product_category db)))),
            (key ''product'', PInt (int (length (tbl_product db)))),
            (key ''users'', PInt (int (length (tbl_users db))))]),
              (key ''health_score'', PFloat (Finite (health_score_of_indicators bs))),
              (key ''health_status'', PStr (health_status_of_score (health_score_of_indicators bs)))]),
           (key ''health_indicators'',
              PDict (map (\<lambda>(k, b). (k, PBool b)) (zip (map key [''categories'', ''products'', ''users'', ''low_stock'', ''database'']) bs)))])"
    unfolding get_system_health_try_def bs_def
    by (simp only: sqlite_fixed sqlite_counts bind_exn_def sum.case Let_def db_health_of_def
          list.case prod.case table_names_columns sqlite_table_sizes list.map snd_conv
          round1_five zip.simps list.simps)
  have len: "length bs = 5" by (simp add: bs_def)
  have sc: "health_score_of_indicators bs = real (length (filter id bs)) / 5 * 100"
    unfolding health_score_of_indicators_def len by simp
  have rg: "0 \<le> health_score_of_indicators bs \<and> health_score_of_indicators bs \<le> 100"
    unfolding bs_def by (rule score_range)
  have "health_indicators_of (get_system_health (sqlite db rest)) = map PBool bs"
    by (simp add: get_system_health_def t health_indicators_of_def bs_def)
  moreover have "system_metric ''health_score'' (get_system_health (sqlite db rest))
         = Some (PFloat (Finite (health_score_of_indicators bs)))"
    by (simp add: get_system_health_def t system_metric_def)
  moreover have "system_metric ''health_status'' (get_system_health (sqlite db rest))
         = Some (PStr (health_status_of_score (health_score_of_indicators bs)))"
    by (simp add: get_system_health_def t system_metric_def)
  ultimately show ?thesis using len sc rg unfolding health_status_of_score_def by blast
qed


lemma system_health_try_fails:
  assumes "st q = Inl e" and "q \<in> set system_health_own_statements"
  shows "\<exists>e'. get_system_health_try st = Inl e'"
  using assms
  by (auto simp: system_health_own_statements_def get_system_health_try_def count_of_def
      bind_exn_def Let_def split: sum.splits)

lemma score_of_five:
  assumes "length bs = 5"
  shows "health_score_of_indicators bs = real (length (filter id bs)) / 5 * 100
    \<and> 0 \<le> health_score_of_indicators bs \<and> health_score_of_indicators bs \<le> 100"
proof -
  have "length (filter id bs) \<le> 5" using assms length_filter_le [of id bs] by simp
  then show ?thesis using assms by (simp add: health_score_of_indicators_def)
qed

lemma empty_file_health:
  "get_system_health empty_file = system_health_failed (Exn StorageError (lit ''no such table''))"
  by (simp add: get_system_health_def get_system_health_try_def empty_file_def bind_exn_def
      count_of_def)

lemma failed_fields:
  "system_metric ''health_score'' (system_health_failed e) = Some (PInt 0)
   \<and> system_metric ''health_status'' (system_health_failed e) = Some (PStr (lit ''error''))
   \<and> health_indicators_of (system_health_failed e) = []"
  by (simp add: system_health_failed_def system_metric_def health_indicators_of_def)


text \<open>
  C8 as stated: for every database state the status is \<open>excellent\<close>, \<open>good\<close> or
  \<open>needs_attention\<close> according to the score. On a database file without tables the
  reads fail and the operation returns score 0 with status \<open>error\<close>, where the claim
  has \<open>needs_attention\<close>, and no indicators.
\<close>

theorem C8_failed_read_reports_error_counterexample:
  "system_metric ''health_score'' (get_system_health empty_file) = Some (PInt 0)
   \<and> system_metric ''health_status'' (get_system_health empty_file) = Some (PStr (lit ''error''))
   \<and> lit ''error'' \<noteq> lit ''needs_attention''
   \<and> health_indicators_of (get_system_health empty_file) = []"
  by (simp add: empty_file_health system_health_failed_def system_metric_def
      health_indicators_of_def)
    (simp add: lit_def)


text \<open>
  C8 (amended): for every storage, \<open>get_system_health\<close> returns one of two results.
  Either its error default: health score 0, health status \<open>error\<close> and no indicators.
  Or a result whose health score is the fraction of its five boolean indicators that
  are true, times 100, so it lies between 0 and 100, and whose health status is
  \<open>excellent\<close> when the score is at least 80, \<open>good\<close> when it is at least 60 and below 80,
  and \<open>needs_attention\<close> otherwise. On every database state with the tables of the
  schema it is the second; whenever the connection or one of the operation's own
  statements fails it is the first.
\<close>

theorem C8_health_score_and_status_or_error:
  "((\<exists>e. get_system_health st = system_health_failed e
        \<and> system_metric ''health_score'' (get_system_health st) = Some (PInt 0)
        \<and> system_metric ''health_status'' (get_system_health st) = Some (PStr (lit ''error''))
        \<and> health_indicators_of (get_system_health st) = [])
    \<or> (\<exists>bs. length bs = 5
        \<and> health_indicators_of (get_system_health st) = map PBool bs
        \<and> system_metric ''health_score'' (get_system_health st)
            = Some (PFloat (Finite (health_score_of_indicators bs)))
        \<and> health_score_of_indicators bs = real (length (filter id bs)) / 5 * 100
        \<and> 0 \<le> health_score_of_indicators bs \<and> health_score_of_indicators bs \<le> 100
        \<and> system_metric ''health_status'' (get_system_health st)
            = Some (PStr (if health_score_of_indicators bs \<ge> 80 then lit ''excellent''
                          else if health_score_of_indicators bs \<ge> 60 then lit ''good''
                          else lit ''needs_attention''))))
   \<and> (\<exists>bs. length bs = 5
        \<and> health_indicators_of (get_system_health (sqlite db rest)) = map PBool bs
        \<and> system_metric ''health_score'' (get_system_health (sqlite db rest))
            = Some (PFloat (Finite (health_score_of_indicators bs)))
        \<and> health_score_of_indicators bs = real (length (filter id bs)) / 5 * 100
        \<and> 0 \<le> health_score_of_indicators bs \<and> health_score_of_indicators bs \<le> 100
        \<and> system_metric ''health_status'' (get_system_health (sqlite db rest))
            = Some (PStr (if health_score_of_indicators bs \<ge> 80 then lit ''excellent''
                          else if health_score_of_indicators bs \<ge> 60 then lit ''good''
                          else lit ''needs_attention'')))
   \<and> ((\<exists>q e. q \<in> set system_health_own_statements \<and> st q = Inl e)
        \<longrightarrow> (\<exists>e. get_system_health st = system_health_failed e))"
proof (intro conjI impI)
  from system_health_shape [of st] consider
    e where "get_system_health st = system_health_failed e"
    | bs where "length bs = 5"
      "health_indicators_of (get_system_health st) = map PBool bs"
      "system_metric ''health_score'' (get_system_health st)
         = Some (PFloat (Finite (health_score_of_indicators bs)))"
      "system_metric ''health_status'' (get_system_health st)
         = Some (PStr (health_status_of_score (health_score_of_indicators bs)))"
    by blast
  then show "(\<exists>e. get_system_health st = system_health_failed e
        \<and> system_metric ''health_score'' (get_system_health st) = Some (PInt 0)
        \<and> system_metric ''health_status'' (get_system_health st) = Some (PStr (lit ''error''))
        \<and> health_indicators_of (get_system_health st) = [])
    \<or> (\<exists>bs. length bs = 5
        \<and> health_indicators_of (get_system_health st) = map PBool bs
        \<and> system_metric ''health_score'' (get_system_health st)
            = Some (PFloat (Finite (health_score_of_indicators bs)))
        \<and> health_score_of_indicators bs = real (length (filter id bs)) / 5 * 100
        \<and> 0 \<le> health_score_of_indicators bs \<and> health_score_of_indicators bs \<le> 100
        \<and> system_metric ''health_status'' (get_system_health st)
            = Some (PStr (if health_score_of_indicators bs \<ge> 80 then lit ''excellent''
                          else if health_score_of_indicators bs \<ge> 60 then lit ''good''
                          else lit ''needs_attention'')))"
  proof cases
    case 1
    then show ?thesis using failed_fields [of e] by auto
  next
    case 2
    from score_of_five [OF 2(1)] 2 show ?thesis
      unfolding health_status_of_score_def by blast
  qed
next
  show "\<exists>bs. length bs = 5
        \<and> health_indicators_of (get_system_health (sqlite db rest)) = map PBool bs
        \<and> system_metric ''health_score'' (get_system_health (sqlite db rest))
            = Some (PFloat (Finite (health_score_of_indicators bs)))
        \<and> health_score_of_indicators bs = real (length (filter id bs)) / 5 * 100
        \<and> 0 \<le> health_score_of_indicators bs \<and> health_score_of_indicators bs \<le> 100
        \<and> system_metric ''health_status'' (get_system_health (sqlite db rest))
            = Some (PStr (if health_score_of_indicators bs \<ge> 80 then lit ''excellent''
                          else if health_score_of_indicators bs \<ge> 60 then lit ''good''
                          else lit ''needs_attention''))"
    by (rule system_health_sqlite_state)
next
  assume "\<exists>q e. q \<in> set system_health_own_statements \<and> st q = Inl e"
  then obtain q e where "st q = Inl e" "q \<in> set system_health_own_statements" by blast
  then obtain e' where "get_system_health_try st = Inl e'"
    using system_health_try_fails by blast
  then show "\<exists>e. get_system_health st = system_health_failed e"
    by (auto simp: get_system_health_def)
qed

theorem C8_health_score_and_status_or_error_witness:
  "(\<exists>e. get_system_health empty_file = system_health_failed e)
   \<and> empty_file CountCategories = Inl (Exn StorageError (lit ''no such table''))"
proof -
  have f: "empty_file CountCategories = Inl (Exn StorageError (lit ''no such table''))"
    by (simp add: empty_file_def)
  have "CountCategories \<in> set system_health_own_statements"
    by (simp add: system_health_own_statements_def)
  with f have "\<exists>q e. q \<in> set system_health_own_statements \<and> empty_file q = Inl e"
    by blast
  with C8_health_score_and_status_or_error [where st = empty_file] f show ?thesis
    by blast
qed

lemma example_system_health:
  "system_metric ''health_score'' (get_system_health (sqlite example_db failing_storage))
     = Some (PFloat (Finite 100))
   \<and> system_metric ''health_status'' (get_system_health (sqlite example_db failing_storage))
     = Some (PStr (lit ''excellent''))"
  by (simp add: get_system_health_def get_system_health_try_def sqlite_fixed
      sqlite_counts bind_exn_def Let_def db_health_of_def table_names_columns
      sqlite_table_sizes round1_five system_metric_def health_status_of_score_def
      low_stock_sqlite low_stock_select_def joined_def example_db_def)
    (simp add: health_score_of_indicators_def)
















section \<open>Properties of the completion client\<close>








lemma one_model_answers:
  "safe_generate one_model (fst (enhanced_init one_model (lit ''llama3.1:latest''))) (lit ''hi'') []
     = (lit ''an answer'', [Generate (lit ''llama3.1:latest'') (lit ''hi'')])
  \<and> ai_safe_generate one_model (fst (ai_init lower_ascii one_model (lit ''llama3.1:latest''))) (lit ''hi'') 2 []
     = (lit ''an answer'', [Generate (lit ''llama3.1:latest'') (lit ''hi'')])"
  by (simp add: safe_generate_def enhanced_init_def test_connection_def one_model_def Let_def
     ai_safe_generate_def ai_init_def test_ollama_connection_def test_model_generation_def clean_name_def strip_chars_def
     numeral_2_eq_2 eval_defs lower_ascii_def)

section \<open>Properties of the assistant pipeline\<close>

lemma decimal_status: "decimal 400 = lit ''400''" "decimal 500 = lit ''500''"
  by (simp_all add: decimal_def decimal_nat.simps lit_def)

lemma no_models_agent:
  "fst (enhanced_init no_models m) = \<lparr>model = m, available = False, client = True\<rparr>"
  by (simp add: enhanced_init_def no_models_def test_connection_def)

text \<open>An exception during the assembly does set the review flag.\<close>

lemma supervisor_flags_assembly_errors:
  assumes "collect query = Inl e
      \<or> (\<exists>d. collect query = Inr d
            \<and> compose query user_role (analyze_query_type lower query) d = Inl e)"
  shows "supervisor_agent lower env a collect compose query user_role calls
    = (supervisor_failed e, calls)
    \<and> needs_human_review (supervisor_failed e)"
  using assms by (auto simp: supervisor_agent_def supervisor_failed_def Let_def)

text \<open>With the service available and answering, the flag is not set.\<close>

lemma answered_query:
  "fst (enhanced_ai_query lower_ascii one_model
          (fst (enhanced_init one_model (lit ''llama3.1:latest'')))
          collected composed [(key ''query'', PStr example_query)] (lit ''user'') [])
   = Inr \<lparr>qr_response = lit ''an answer'', qr_agent_type = lit ''rag'',
          qr_data = PDict [(key ''summary'', PDict [])],
          qr_reasoning = lit ''Used rag approach with comprehensive business data'',
          qr_actions = [], qr_needs_human_review = False\<rparr>"
  by (simp add: enhanced_ai_query_def enhanced_ai_query_try_def get_default_def Let_def
      supervisor_agent_def safe_generate_def enhanced_init_def test_connection_def one_model_def
      collected_def composed_def apply_response_style_def analyze_query_type_def any_in_def
      planner_words_def analytics_words_def rag_words_def example_query_def lower_ascii_def
      eval_defs)

text \<open>
  C2 at its failing input: a client that is unavailable. Whatever the query, when the
  assembly succeeds \<open>supervisor_agent\<close> returns the fixed unavailable message with
  \<open>needs_human_review = False\<close>; so it does for the agent that \<open>EnhancedAIAgent.__init__\<close>
  leaves when the service lists no model. The claim has the flag true there.
\<close>

theorem C2_unavailable_not_flagged:
  "needs_human_review (fst (supervisor_agent lower env
       \<lparr>model = m, available = False, client = c\<rparr>
       (\<lambda>q. Inr d) (\<lambda>q r t x. Inr p) query user_role calls)) = False
   \<and> response (fst (supervisor_agent lower env
       \<lparr>model = m, available = False, client = c\<rparr>
       (\<lambda>q. Inr d) (\<lambda>q r t x. Inr p) query user_role calls)) = unavailable_message
   \<and> needs_human_review (fst (supervisor_agent lower_ascii no_models
       (fst (enhanced_init no_models (lit ''llama3.1:latest'')))
       collected composed example_query (lit ''user'') [])) = False
   \<and> response (fst (supervisor_agent lower_ascii no_models
       (fst (enhanced_init no_models (lit ''llama3.1:latest'')))
       collected composed example_query (lit ''user'') []))
     = lit ''AI service is currently unavailable.''"
  by (simp add: supervisor_agent_def safe_generate_def Let_def no_models_agent collected_def
      composed_def unavailable_message_def)

text \<open>
  The check of \<open>update_user_role\<close>, which stands outside any \<open>try\<close>, does leave its
  endpoint as a client error.
\<close>

lemma update_user_role_rejects:
  "update_user_role update [] = Inl (HTTPException 400 (lit ''role_id is required''))"
  by (simp add: update_user_role_def get_default_def)

text \<open>
  C4 at its failing inputs: a request with no \<open>query\<close> entry and one with an empty
  query. The endpoint raises \<open>HTTPException(status_code=400)\<close> inside its \<open>try\<close>, and its
  own \<open>except Exception\<close> catches it and raises \<open>HTTPException(status_code=500)\<close>: the
  request is answered with a server error, not a client error. No call is made to
  the model service.
\<close>

theorem C4_missing_query_is_server_error:
  "enhanced_ai_query lower env a collect compose request_without_query user_role calls
     = (Inl (HTTPException 500 (lit ''AI processing error: ''
           @ str_exn (HTTPException 400 (lit ''Query is required'')))), calls)
   \<and> enhanced_ai_query lower env a collect compose request_with_empty_query user_role calls
     = (Inl (HTTPException 500 (lit ''AI processing error: ''
           @ str_exn (HTTPException 400 (lit ''Query is required'')))), calls)
   \<and> status_code (fst (enhanced_ai_query lower env a collect compose
         request_without_query user_role calls)) = 500
   \<and> status_code (fst (enhanced_ai_query lower env a collect compose
         request_with_empty_query user_role calls)) = 500"
  by (simp add: enhanced_ai_query_def enhanced_ai_query_try_def request_without_query_def
      request_with_empty_query_def get_default_def Let_def status_code_def)

end
